theory Spec2Isabelle
  imports Complex_Main "HOL-Library.Sublist"
begin

section \<open>Data model of \<^verbatim>\<open>src/App.tsx\<close>\<close>

text \<open>
  A JavaScript \<^verbatim>\<open>number\<close> is modelled as an exact real: the arithmetic of the
  dashboard (\<^verbatim>\<open>/\<close>, \<^verbatim>\<open>%\<close>, \<^verbatim>\<open>Math.floor\<close>) is written over the reals, IEEE rounding,
  \<^verbatim>\<open>NaN\<close> and the infinities are left out.  A value of type \<^verbatim>\<open>any\<close> is a JSON value.
\<close>

type_synonym number = real

datatype JSON_value =
    JNull
  | JBool bool
  | JNumber number
  | JString string
  | JArray "JSON_value list"
  | JObject "(string \<times> JSON_value) list"

text \<open>
  The four interfaces.  Field names that occur in two interfaces, or that name a
  constant of HOL, carry a prime.
\<close>

record Camera =
  id' :: number
  name :: "string option"
  device :: string
  streamPort :: number
  streamUrl :: string

record Prediction =
  cameraId :: number
  model :: string
  timestamp :: string
  result :: JSON_value

record Status =
  cameras' :: number
  models :: "string list"
  currentModel :: "string option"
  totalPredictions :: number
  uptime :: number

record SystemError =
  cameraId' :: number
  error :: string
  timestamp' :: string

text \<open>The five \<^verbatim>\<open>useState\<close> cells of \<^verbatim>\<open>App\<close>, and their initial values.\<close>

record App =
  cameras :: "Camera list"
  predictions :: "Prediction list"
  status :: "Status option"
  errors :: "SystemError list"
  isLogExpanded :: bool

definition App_initial :: App where
  "App_initial =
     \<lparr>cameras = [], predictions = [], status = None, errors = [], isLogExpanded = False\<rparr>"

section \<open>\<^verbatim>\<open>formatUptime\<close>\<close>








section \<open>Promises, responses and tasks\<close>

text \<open>
  A thrown exception or the reason of a rejected promise.  \<^verbatim>\<open>fetch\<close> rejects with a
  \<^verbatim>\<open>TypeError\<close> when the network fails; \<^verbatim>\<open>Response.json()\<close> and \<^verbatim>\<open>JSON.parse\<close> fail with
  a \<^verbatim>\<open>SyntaxError\<close> on text that is not JSON.  The string is the message.
\<close>

datatype js_error = TypeError string | SyntaxError string

text \<open>A settled promise, or the outcome of a call that may throw: \<open>Inl\<close> is the error.\<close>

type_synonym 'a promise = "js_error + 'a"

text \<open>
  What \<^verbatim>\<open>App\<close> reads of a \<^verbatim>\<open>Response\<close>: the flag \<^verbatim>\<open>ok\<close> (status 200 to 299) and the
  promise that \<^verbatim>\<open>json()\<close> returns.
\<close>

record 'a Response =
  ok :: bool
  json :: "'a promise"

text \<open>
  One \<^verbatim>\<open>fetch\<close> call as the network answers it: the instant at which its promise
  settles, and how.
\<close>

record 'a Fetch =
  arrival :: nat
  settled :: "'a Response promise"

text \<open>The answers to the four calls of one poll cycle, in the order of the array.\<close>

record Poll =
  camerasFetch :: "Camera list Fetch"
  predictionsFetch :: "Prediction list Fetch"
  statusFetch :: "Status Fetch"
  errorsFetch :: "SystemError list Fetch"

text \<open>
  The argument of a state setter of React: a value, or a function of the previous
  state.  Only \<^verbatim>\<open>setPredictions\<close> is ever called with a function.
\<close>

datatype 'a SetStateAction = Value 'a | Updater "'a \<Rightarrow> 'a"

fun resolve :: "'a SetStateAction \<Rightarrow> 'a \<Rightarrow> 'a" where
  "resolve (Value v) prev = v"
| "resolve (Updater f) prev = f prev"

text \<open>What the code does to the world: the calls of the setters and of \<^verbatim>\<open>console.error\<close>.\<close>

datatype effect =
    SetCameras "Camera list"
  | SetPredictions "Prediction list SetStateAction"
  | SetStatus "Status option"
  | SetErrors "SystemError list"
  | SetIsLogExpanded bool
  | ConsoleError js_error

text \<open>
  React queues the calls of the setters and applies them in the order of the calls; the
  state that the next render sees is the fold of the queue over the state.
\<close>

fun apply_effect :: "effect \<Rightarrow> App \<Rightarrow> App" where
  "apply_effect (SetCameras v) s = s\<lparr>cameras := v\<rparr>"
| "apply_effect (SetPredictions a) s = s\<lparr>predictions := resolve a (predictions s)\<rparr>"
| "apply_effect (SetStatus v) s = s\<lparr>status := v\<rparr>"
| "apply_effect (SetErrors v) s = s\<lparr>errors := v\<rparr>"
| "apply_effect (SetIsLogExpanded v) s = s\<lparr>isLogExpanded := v\<rparr>"
| "apply_effect (ConsoleError e) s = s"

definition run_effects :: "effect list \<Rightarrow> App \<Rightarrow> App" where
  "run_effects es s = fold apply_effect es s"

text \<open>
  A task is a piece of code run to its end: the effects it performed, in order, and
  whether it returned a value or threw.  The effects performed before a throw stay.
\<close>

type_synonym 'a task = "effect list \<times> 'a promise"

definition perform :: "effect \<Rightarrow> unit task" where
  "perform e = ([e], Inr ())"

definition skip :: "unit task" where
  "skip = ([], Inr ())"

definition await :: "'a promise \<Rightarrow> 'a task" where
  "await p = ([], p)"

definition then_do :: "'a task \<Rightarrow> ('a \<Rightarrow> 'b task) \<Rightarrow> 'b task" where
  "then_do m k =
     (case m of
        (es, Inl e) \<Rightarrow> (es, Inl e)
      | (es, Inr v) \<Rightarrow> (case k v of (es', r) \<Rightarrow> (es @ es', r)))"

definition try_catch :: "'a task \<Rightarrow> (js_error \<Rightarrow> 'a task) \<Rightarrow> 'a task" where
  "try_catch m handler =
     (case m of
        (es, Inl e) \<Rightarrow> (case handler e of (es', r) \<Rightarrow> (es @ es', r))
      | (es, Inr v) \<Rightarrow> (es, Inr v))"

text \<open>
  \<^verbatim>\<open>Promise.all\<close> on the four fetches.  It fulfils once all four have fulfilled, with
  the responses in the order of the array whatever the order of their arrival; it
  rejects as soon as one of them rejects, with the reason of the rejection that arrived
  first (of two rejections at the same instant, the one earlier in the array).
\<close>

fun first_rejection :: "(nat \<times> js_error) list \<Rightarrow> (nat \<times> js_error) option" where
  "first_rejection [] = None"
| "first_rejection ((t, e) # rs) =
     (case first_rejection rs of
        None \<Rightarrow> Some (t, e)
      | Some (t', e') \<Rightarrow> if t \<le> t' then Some (t, e) else Some (t', e'))"

definition rejection :: "'a Fetch \<Rightarrow> (nat \<times> js_error) list" where
  "rejection f = (case settled f of Inl e \<Rightarrow> [(arrival f, e)] | Inr r \<Rightarrow> [])"

definition Promise_all ::
  "'a Fetch \<Rightarrow> 'b Fetch \<Rightarrow> 'c Fetch \<Rightarrow> 'd Fetch \<Rightarrow>
   ('a Response \<times> 'b Response \<times> 'c Response \<times> 'd Response) promise" where
  "Promise_all a b c d =
     (case first_rejection (rejection a @ rejection b @ rejection c @ rejection d) of
        Some (t, e) \<Rightarrow> Inl e
      | None \<Rightarrow>
          (case settled a of Inl e \<Rightarrow> Inl e | Inr ra \<Rightarrow>
          (case settled b of Inl e \<Rightarrow> Inl e | Inr rb \<Rightarrow>
          (case settled c of Inl e \<Rightarrow> Inl e | Inr rc \<Rightarrow>
          (case settled d of Inl e \<Rightarrow> Inl e | Inr rd \<Rightarrow> Inr (ra, rb, rc, rd))))))"

section \<open>\<^verbatim>\<open>fetchData\<close>: one poll cycle\<close>

text \<open>
  \<^verbatim>\<open>
  const fetchData = async () => {
    try {
      const [camerasRes, predictionsRes, statusRes, errorsRes] = await Promise.all([
        fetch('http://localhost:9003/api/cameras'),
        fetch('http://localhost:9003/api/predictions'),
        fetch('http://localhost:9003/api/status'),
        fetch('http://localhost:9003/api/errors')
      ]);
      if (camerasRes.ok) setCameras(await camerasRes.json());
      if (predictionsRes.ok) setPredictions(await predictionsRes.json());
      if (statusRes.ok) setStatus(await statusRes.json());
      if (errorsRes.ok) setErrors(await errorsRes.json());
    } catch (error) {
      console.error('Error fetching data:', error);
    }
  };
  \<close>
\<close>

definition fetchData :: "Poll \<Rightarrow> unit task" where
  "fetchData net =
     try_catch
       (then_do
          (await (Promise_all (camerasFetch net) (predictionsFetch net)
                              (statusFetch net) (errorsFetch net)))
          (\<lambda>(camerasRes, predictionsRes, statusRes, errorsRes).
             then_do (if ok camerasRes
                      then then_do (await (json camerasRes)) (\<lambda>v. perform (SetCameras v))
                      else skip) (\<lambda>_.
             then_do (if ok predictionsRes
                      then then_do (await (json predictionsRes))
                             (\<lambda>v. perform (SetPredictions (Value v)))
                      else skip) (\<lambda>_.
             then_do (if ok statusRes
                      then then_do (await (json statusRes)) (\<lambda>v. perform (SetStatus (Some v)))
                      else skip) (\<lambda>_.
                     (if ok errorsRes
                      then then_do (await (json errorsRes)) (\<lambda>v. perform (SetErrors v))
                      else skip))))))
       (\<lambda>error. perform (ConsoleError error))"

text \<open>The snapshot after a poll cycle whose effects are applied with no other write between.\<close>

definition after_poll :: "Poll \<Rightarrow> App \<Rightarrow> App" where
  "after_poll net s = run_effects (fst (fetchData net)) s"

section \<open>The handler of \<^verbatim>\<open>send_sensor_data\<close>\<close>

text \<open>
  \<^verbatim>\<open>
  socket.on('send_sensor_data', (data: any) => {
    const parsedData = JSON.parse(data);
    setPredictions((prevPredictions) => [parsedData, ...prevPredictions]);
  });
  \<close>
  \<^verbatim>\<open>JSON.parse\<close> is a parameter: it throws, or returns the value that the handler then
  uses as a \<^verbatim>\<open>Prediction\<close> (its result has type \<^verbatim>\<open>any\<close>, nothing validates it).  The
  handler has no \<^verbatim>\<open>try\<close>: a task that ends in \<open>Inl\<close> is an exception that leaves it.
\<close>

definition on_send_sensor_data :: "(string \<Rightarrow> Prediction promise) \<Rightarrow> string \<Rightarrow> unit task" where
  "on_send_sensor_data JSON_parse data =
     then_do (await (JSON_parse data)) (\<lambda>parsedData.
       perform (SetPredictions (Updater (\<lambda>prevPredictions. parsedData # prevPredictions))))"

definition after_push :: "(string \<Rightarrow> Prediction promise) \<Rightarrow> string \<Rightarrow> App \<Rightarrow> App" where
  "after_push JSON_parse data s = run_effects (fst (on_send_sensor_data JSON_parse data)) s"

section \<open>Events of the running view\<close>

text \<open>
  \<^verbatim>\<open>onToggle={() => setIsLogExpanded(!isLogExpanded)}\<close> reads the state of the render it
  was created in.
\<close>

definition onToggle :: "App \<Rightarrow> unit task" where
  "onToggle s = perform (SetIsLogExpanded (\<not> isLogExpanded s))"

text \<open>
  What can happen to the mounted view: a poll cycle with the answers of the network, a
  frame on \<^verbatim>\<open>send_sensor_data\<close> with its raw payload, a click on the log.
\<close>

datatype event = PollCycle Poll | PushEvent string | ToggleLog

fun event_task :: "(string \<Rightarrow> Prediction promise) \<Rightarrow> event \<Rightarrow> App \<Rightarrow> unit task" where
  "event_task JSON_parse (PollCycle net) s = fetchData net"
| "event_task JSON_parse (PushEvent data) s = on_send_sensor_data JSON_parse data"
| "event_task JSON_parse ToggleLog s = onToggle s"

definition handle :: "(string \<Rightarrow> Prediction promise) \<Rightarrow> event \<Rightarrow> App \<Rightarrow> App" where
  "handle JSON_parse ev s = run_effects (fst (event_task JSON_parse ev s)) s"

definition run_events :: "(string \<Rightarrow> Prediction promise) \<Rightarrow> event list \<Rightarrow> App \<Rightarrow> App" where
  "run_events JSON_parse evs s = fold (handle JSON_parse) evs s"

text \<open>
  The answer to \<^verbatim>\<open>/api/status\<close> of a poll cycle is a success: the fetch fulfilled, the
  status is a success status and the body is JSON.
\<close>

fun status_success :: "event \<Rightarrow> bool" where
  "status_success (PollCycle net) =
     (case settled (statusFetch net) of
        Inl e \<Rightarrow> False
      | Inr r \<Rightarrow> ok r \<and> isl (json r) = False)"
| "status_success (PushEvent data) = False"
| "status_success ToggleLog = False"

section \<open>Order of the setter calls and order of arrival\<close>

datatype resource = CamerasR | PredictionsR | StatusR | ErrorsR

fun setter_resource :: "effect \<Rightarrow> resource list" where
  "setter_resource (SetCameras v) = [CamerasR]"
| "setter_resource (SetPredictions a) = [PredictionsR]"
| "setter_resource (SetStatus v) = [StatusR]"
| "setter_resource (SetErrors v) = [ErrorsR]"
| "setter_resource (SetIsLogExpanded v) = []"
| "setter_resource (ConsoleError e) = []"

text \<open>The resources in the order in which a task called their setters.\<close>

definition setter_order :: "effect list \<Rightarrow> resource list" where
  "setter_order es = concat (map setter_resource es)"


section \<open>Calls of \<^verbatim>\<open>setPredictions\<close> in a sequence of effects\<close>

fun prediction_write :: "effect \<Rightarrow> Prediction list SetStateAction list" where
  "prediction_write (SetPredictions a) = [a]"
| "prediction_write (SetCameras v) = []"
| "prediction_write (SetStatus v) = []"
| "prediction_write (SetErrors v) = []"
| "prediction_write (SetIsLogExpanded v) = []"
| "prediction_write (ConsoleError e) = []"

definition prediction_writes :: "effect list \<Rightarrow> Prediction list SetStateAction list" where
  "prediction_writes es = concat (map prediction_write es)"



section \<open>The effect of \<^verbatim>\<open>useEffect\<close>: mount and unmount\<close>

text \<open>
  What the page holds outside the state of React: the interval timers that are set
  (identifier and delay in milliseconds), the sockets that \<^verbatim>\<open>io\<close> opened and that no one
  disconnected, with the events that have a listener, and the number of calls of
  \<^verbatim>\<open>fetchData\<close> made directly.
\<close>

record Socket =
  uri :: string
  transports :: "string list"
  path :: string
  reconnection :: bool
  listeners :: "string list"

record Runtime =
  nextTimer :: nat
  intervals :: "(nat \<times> nat) list"
  sockets :: "Socket list"
  fetchCalls :: nat

definition Runtime_initial :: Runtime where
  "Runtime_initial = \<lparr>nextTimer = 1, intervals = [], sockets = [], fetchCalls = 0\<rparr>"

definition setInterval :: "nat \<Rightarrow> Runtime \<Rightarrow> nat \<times> Runtime" where
  "setInterval delay rt =
     (nextTimer rt,
      rt\<lparr>nextTimer := Suc (nextTimer rt), intervals := intervals rt @ [(nextTimer rt, delay)]\<rparr>)"

definition clearInterval :: "nat \<Rightarrow> Runtime \<Rightarrow> Runtime" where
  "clearInterval i rt = rt\<lparr>intervals := filter (\<lambda>(j, delay). j \<noteq> i) (intervals rt)\<rparr>"

text \<open>\<^verbatim>\<open>io(uri, opts)\<close> opens a socket and returns its index; \<^verbatim>\<open>socket.on\<close> adds a listener.\<close>

definition io :: "string \<Rightarrow> string list \<Rightarrow> string \<Rightarrow> bool \<Rightarrow> Runtime \<Rightarrow> nat \<times> Runtime" where
  "io u ts p r rt =
     (length (sockets rt),
      rt\<lparr>sockets := sockets rt @
           [\<lparr>uri = u, transports = ts, path = p, reconnection = r, listeners = []\<rparr>]\<rparr>)"

definition socket_on :: "nat \<Rightarrow> string \<Rightarrow> Runtime \<Rightarrow> Runtime" where
  "socket_on k topic rt =
     (if k < length (sockets rt)
      then rt\<lparr>sockets := (sockets rt)
             [k := (sockets rt ! k)\<lparr>listeners := listeners (sockets rt ! k) @ [topic]\<rparr>]\<rparr>
      else rt)"

text \<open>
  \<^verbatim>\<open>
  useEffect(() => {
    fetchData();
    const socket = io('https://vertiapp.xyz', {
      transports: ['websocket', 'polling'], path: '/socket.io/', reconnection: true });
    socket.on('connect', ...);
    socket.on('send_sensor_data', ...);
    const interval = setInterval(fetchData, 1000);
    return () => clearInterval(interval);
  }, []);
  \<close>
  The effect runs at mount and returns the cleanup that React runs at unmount.
\<close>

definition useEffect :: "Runtime \<Rightarrow> (Runtime \<Rightarrow> Runtime) \<times> Runtime" where
  "useEffect rt0 =
     (let rt1 = rt0\<lparr>fetchCalls := Suc (fetchCalls rt0)\<rparr>;
          (socket, rt2) = io ''https://vertiapp.xyz'' [''websocket'', ''polling'']
                             ''/socket.io/'' True rt1;
          rt3 = socket_on socket ''connect'' rt2;
          rt4 = socket_on socket ''send_sensor_data'' rt3;
          (interval, rt5) = setInterval 1000 rt4
      in (clearInterval interval, rt5))"

definition mount_unmount :: "Runtime \<Rightarrow> Runtime" where
  "mount_unmount rt = (case useEffect rt of (cleanup, rt') \<Rightarrow> cleanup rt')"

section \<open>Sample data\<close>

definition camera_new :: Camera where
  "camera_new = \<lparr>id' = 1, name = Some ''Rack A'', device = ''/dev/video0'',
                  streamPort = 8081, streamUrl = ''http://localhost:8081/stream''\<rparr>"

definition prediction_p0 :: Prediction where
  "prediction_p0 = \<lparr>cameraId = 1, model = ''leaf'', timestamp = ''2024-05-01T10:00:02Z'',
                     result = JString ''healthy''\<rparr>"

definition prediction_pA :: Prediction where
  "prediction_pA = \<lparr>cameraId = 1, model = ''leaf'', timestamp = ''2024-05-01T10:00:01Z'',
                     result = JString ''wilted''\<rparr>"

definition prediction_pB :: Prediction where
  "prediction_pB = \<lparr>cameraId = 2, model = ''leaf'', timestamp = ''2024-05-01T10:00:00Z'',
                     result = JNull\<rparr>"

definition status_old :: Status where
  "status_old = \<lparr>cameras' = 1, models = [''leaf''], currentModel = None,
                  totalPredictions = 10, uptime = 59\<rparr>"

definition status_new :: Status where
  "status_new = \<lparr>cameras' = 2, models = [''leaf'', ''pest''], currentModel = Some ''pest'',
                  totalPredictions = 12, uptime = 3661\<rparr>"

definition error_new :: SystemError where
  "error_new = \<lparr>cameraId' = 2, error = ''camera offline'',
                 timestamp' = ''2024-05-01T10:00:03Z''\<rparr>"

definition snapshot_old :: App where
  "snapshot_old = \<lparr>cameras = [], predictions = [prediction_pB], status = Some status_old,
                    errors = [], isLogExpanded = False\<rparr>"

text \<open>A fetch that fulfils with status 200 and a JSON body, one that answers 500, one that
  rejects, each at a given instant.\<close>

definition fulfilled :: "nat \<Rightarrow> 'a \<Rightarrow> 'a Fetch" where
  "fulfilled t v = \<lparr>arrival = t, settled = Inr \<lparr>ok = True, json = Inr v\<rparr>\<rparr>"

definition server_error :: "nat \<Rightarrow> 'a Fetch" where
  "server_error t =
     \<lparr>arrival = t, settled = Inr \<lparr>ok = False, json = Inl (SyntaxError ''Unexpected token'')\<rparr>\<rparr>"

definition unreachable :: "nat \<Rightarrow> 'a Fetch" where
  "unreachable t = \<lparr>arrival = t, settled = Inl (TypeError ''Failed to fetch'')\<rparr>"

text \<open>A decoder for the sample payloads: one text is JSON, every other is not.\<close>

definition sample_parse :: "string \<Rightarrow> Prediction promise" where
  "sample_parse data =
     (if data = ''{}'' then Inr prediction_p0
      else Inl (SyntaxError ''Unexpected token''))"

text \<open>Poll cycles: the errors endpoint is unreachable, or answers with status 500.\<close>

definition poll_errors_unreachable :: Poll where
  "poll_errors_unreachable =
     \<lparr>camerasFetch = fulfilled 1 [camera_new],
      predictionsFetch = fulfilled 2 [prediction_pA, prediction_pB],
      statusFetch = fulfilled 3 status_new,
      errorsFetch = unreachable 4\<rparr>"

definition poll_errors_500 :: Poll where
  "poll_errors_500 =
     \<lparr>camerasFetch = fulfilled 1 [camera_new],
      predictionsFetch = fulfilled 2 [prediction_pA, prediction_pB],
      statusFetch = fulfilled 3 status_new,
      errorsFetch = server_error 4\<rparr>"

definition poll_cameras_unreachable :: Poll where
  "poll_cameras_unreachable =
     \<lparr>camerasFetch = unreachable 1,
      predictionsFetch = fulfilled 2 [prediction_pA, prediction_pB],
      statusFetch = fulfilled 3 status_new,
      errorsFetch = fulfilled 4 [error_new]\<rparr>"

text \<open>A poll cycle in which the cameras endpoint answers 200 with a body that is not
  JSON.\<close>

definition poll_cameras_not_json :: Poll where
  "poll_cameras_not_json =
     \<lparr>camerasFetch =
        \<lparr>arrival = 1,
         settled = Inr \<lparr>ok = True, json = Inl (SyntaxError ''Unexpected token'')\<rparr>\<rparr>,
      predictionsFetch = fulfilled 2 [prediction_pA, prediction_pB],
      statusFetch = fulfilled 3 status_new,
      errorsFetch = fulfilled 4 [error_new]\<rparr>"

text \<open>Poll cycles in which the status endpoint answers 500, or 200 with a body that is
  not JSON.\<close>

definition poll_status_500 :: Poll where
  "poll_status_500 =
     \<lparr>camerasFetch = fulfilled 2 [camera_new],
      predictionsFetch = fulfilled 1 [prediction_pA, prediction_pB],
      statusFetch = server_error 3,
      errorsFetch = fulfilled 4 [error_new]\<rparr>"

definition poll_status_not_json :: Poll where
  "poll_status_not_json =
     \<lparr>camerasFetch = fulfilled 1 [camera_new],
      predictionsFetch = fulfilled 2 [prediction_pA, prediction_pB],
      statusFetch =
        \<lparr>arrival = 3,
         settled = Inr \<lparr>ok = True, json = Inl (SyntaxError ''Unexpected end of JSON input'')\<rparr>\<rparr>,
      errorsFetch = fulfilled 4 [error_new]\<rparr>"


section \<open>Lemmas on the model\<close>

lemmas task_defs = await_def perform_def skip_def

lemmas sample_defs = fulfilled_def server_error_def unreachable_def


subsection \<open>Arithmetic of \<^verbatim>\<open>formatUptime\<close>\<close>




subsection \<open>Tasks and effects\<close>

lemma then_do_Inl [simp]: "then_do (es, Inl e) k = (es, Inl e)"
  by (simp add: then_do_def)

lemma then_do_Inr [simp]: "then_do (es, Inr v) k = (es @ fst (k v), snd (k v))"
  by (simp add: then_do_def split: prod.splits)

lemma try_catch_Inl [simp]: "try_catch (es, Inl e) h = (es @ fst (h e), snd (h e))"
  by (simp add: try_catch_def split: prod.splits)

lemma try_catch_Inr [simp]: "try_catch (es, Inr v) h = (es, Inr v)"
  by (simp add: try_catch_def)

lemma run_effects_Nil [simp]: "run_effects [] s = s"
  by (simp add: run_effects_def)

lemma run_effects_Cons [simp]: "run_effects (e # es) s = run_effects es (apply_effect e s)"
  by (simp add: run_effects_def)

lemma run_effects_append [simp]: "run_effects (xs @ ys) s = run_effects ys (run_effects xs s)"
  by (simp add: run_effects_def)

subsection \<open>\<^verbatim>\<open>Promise.all\<close>\<close>

lemma first_rejection_Cons: "\<exists>t e. first_rejection (r # rs) = Some (t, e)"
  by (cases r) (auto split: option.splits)

lemma first_rejection_nonempty: "rs \<noteq> [] \<Longrightarrow> \<exists>t e. first_rejection rs = Some (t, e)"
  by (cases rs) (simp_all add: first_rejection_Cons del: first_rejection.simps)

lemma rejection_Inr [simp]: "settled f = Inr r \<Longrightarrow> rejection f = []"
  by (simp add: rejection_def)

lemma Promise_all_fulfilled:
  "settled a = Inr ra \<Longrightarrow> settled b = Inr rb \<Longrightarrow> settled c = Inr rc \<Longrightarrow> settled d = Inr rd
   \<Longrightarrow> Promise_all a b c d = Inr (ra, rb, rc, rd)"
  by (simp add: Promise_all_def)

lemma Promise_all_rejected:
  assumes "isl (settled a) \<or> isl (settled b) \<or> isl (settled c) \<or> isl (settled d)"
  shows "\<exists>e. Promise_all a b c d = Inl e"
proof -
  from assms have "rejection a @ rejection b @ rejection c @ rejection d \<noteq> []"
    by (auto simp: rejection_def isl_def)
  then obtain t e where
    "first_rejection (rejection a @ rejection b @ rejection c @ rejection d) = Some (t, e)"
    using first_rejection_nonempty by blast
  then show ?thesis by (simp add: Promise_all_def)
qed

lemma fetchData_rejected:
  "Promise_all (camerasFetch net) (predictionsFetch net) (statusFetch net) (errorsFetch net) = Inl e
   \<Longrightarrow> fetchData net = ([ConsoleError e], Inr ())"
  by (simp add: fetchData_def await_def perform_def)

subsection \<open>The push handler\<close>

lemma on_send_sensor_data_Inr:
  "JSON_parse data = Inr p \<Longrightarrow>
   on_send_sensor_data JSON_parse data =
     ([SetPredictions (Updater (\<lambda>prevPredictions. p # prevPredictions))], Inr ())"
  by (simp add: on_send_sensor_data_def task_defs)

lemma on_send_sensor_data_Inl:
  "JSON_parse data = Inl err \<Longrightarrow> on_send_sensor_data JSON_parse data = ([], Inl err)"
  by (simp add: on_send_sensor_data_def task_defs)

subsection \<open>Order of the setters\<close>

lemma setter_order_Nil [simp]: "setter_order [] = []"
  by (simp add: setter_order_def)

lemma setter_order_Cons [simp]: "setter_order (e # es) = setter_resource e @ setter_order es"
  by (simp add: setter_order_def)

subsection \<open>The shape of the traces of \<^verbatim>\<open>fetchData\<close>\<close>

lemma Promise_all_Inr_D:
  assumes "Promise_all a b c d = Inr (ra, rb, rc, rd)"
  shows "settled a = Inr ra \<and> settled b = Inr rb \<and> settled c = Inr rc \<and> settled d = Inr rd"
  using assms by (auto simp: Promise_all_def split: option.splits sum.splits)



subsection \<open>Writes to the prediction sequence\<close>

lemma prediction_writes_Nil [simp]: "prediction_writes [] = []"
  by (simp add: prediction_writes_def)

lemma prediction_writes_Cons [simp]:
  "prediction_writes (e # es) = prediction_write e @ prediction_writes es"
  by (simp add: prediction_writes_def)








subsection \<open>Writes to the status\<close>

lemma fetchData_status_unchanged:
  assumes "\<not> status_success (PollCycle net)"
  shows "status (run_effects (fst (fetchData net)) s) = status s"
proof (cases "Promise_all (camerasFetch net) (predictionsFetch net) (statusFetch net) (errorsFetch net)")
  case (Inl e)
  then show ?thesis by (simp add: fetchData_rejected)
next
  case (Inr x)
  obtain ra rb rc rd where x: "x = (ra, rb, rc, rd)" by (cases x) auto
  from Promise_all_Inr_D [OF Inr [unfolded x]] have "settled (statusFetch net) = Inr rc" by simp
  with assms have rc: "\<not> ok rc \<or> isl (json rc)" by simp
  show ?thesis
    using rc unfolding fetchData_def Inr x
    by (cases "json ra"; cases "json rb"; cases "json rc"; cases "json rd")
       (auto simp: task_defs)
qed

lemma handle_status_unchanged:
  "\<not> status_success ev \<Longrightarrow> status (handle JSON_parse ev s) = status s"
proof (cases ev)
  case (PollCycle net)
  assume "\<not> status_success ev"
  with PollCycle show ?thesis by (simp add: handle_def fetchData_status_unchanged)
next
  case (PushEvent data)
  show ?thesis
    by (cases "JSON_parse data")
       (simp_all add: PushEvent handle_def on_send_sensor_data_Inl on_send_sensor_data_Inr)
next
  case ToggleLog
  show ?thesis by (simp add: ToggleLog handle_def onToggle_def perform_def)
qed

lemma run_events_status_unchanged:
  "\<forall>ev \<in> set evs. \<not> status_success ev \<Longrightarrow> status (run_events JSON_parse evs s) = status s"
  by (induction evs arbitrary: s) (simp_all add: run_events_def handle_status_unchanged)

lemma fetchData_sets_status:
  assumes "settled (camerasFetch net) = Inr camerasRes"
      and "settled (predictionsFetch net) = Inr predictionsRes"
      and "settled (statusFetch net) = Inr statusRes"
      and "settled (errorsFetch net) = Inr errorsRes"
      and "ok camerasRes \<longrightarrow> \<not> isl (json camerasRes)"
      and "ok predictionsRes \<longrightarrow> \<not> isl (json predictionsRes)"
      and "ok statusRes" and "json statusRes = Inr v"
  shows "status (after_poll net s) = Some v"
  using assms(5-8)
  unfolding after_poll_def fetchData_def Promise_all_fulfilled [OF assms(1-4)]
  by (cases "json camerasRes"; cases "json predictionsRes"; cases "json errorsRes")
     (auto simp: task_defs)

section \<open>The claims\<close>


text \<open>
  C9.  In a poll cycle in which one of the four fetches rejects, no setter is called:
  the only effect of the cycle is the call of \<^verbatim>\<open>console.error\<close>, and the snapshot after
  the cycle is the snapshot before it.
\<close>

theorem fetchData_rejection_skips_all:
  assumes "isl (settled (camerasFetch net)) \<or> isl (settled (predictionsFetch net))
           \<or> isl (settled (statusFetch net)) \<or> isl (settled (errorsFetch net))"
  shows "(\<exists>e. fst (fetchData net) = [ConsoleError e]) \<and> after_poll net s = s"
proof -
  from Promise_all_rejected [OF assms] obtain e where
    "Promise_all (camerasFetch net) (predictionsFetch net) (statusFetch net) (errorsFetch net) = Inl e" ..
  then have "fetchData net = ([ConsoleError e], Inr ())" by (rule fetchData_rejected)
  then show ?thesis by (simp add: after_poll_def)
qed

theorem fetchData_rejection_skips_all_witness:
  "fst (fetchData poll_errors_unreachable) = [ConsoleError (TypeError ''Failed to fetch'')]
   \<and> after_poll poll_errors_unreachable snapshot_old = snapshot_old"
proof -
  have rejected: "isl (settled (camerasFetch poll_errors_unreachable))
      \<or> isl (settled (predictionsFetch poll_errors_unreachable))
      \<or> isl (settled (statusFetch poll_errors_unreachable))
      \<or> isl (settled (errorsFetch poll_errors_unreachable))"
    by (simp add: poll_errors_unreachable_def sample_defs)
  have "fst (fetchData poll_errors_unreachable) = [ConsoleError (TypeError ''Failed to fetch'')]"
    by (simp add: poll_errors_unreachable_def sample_defs fetchData_def
        Promise_all_def rejection_def task_defs)
  with fetchData_rejection_skips_all [OF rejected, of snapshot_old] show ?thesis by simp
qed

text \<open>
  C1, as the claim states it, fails: when the fetch of \<^verbatim>\<open>/errors\<close> rejects (the network
  is down for it) and the other three answer 200 with new values, the cameras, the
  predictions and the status are not updated.
\<close>

theorem network_error_is_not_isolated:
  "isl (settled (errorsFetch poll_errors_unreachable))
   \<and> settled (camerasFetch poll_errors_unreachable) = Inr \<lparr>ok = True, json = Inr [camera_new]\<rparr>
   \<and> settled (predictionsFetch poll_errors_unreachable) =
       Inr \<lparr>ok = True, json = Inr [prediction_pA, prediction_pB]\<rparr>
   \<and> settled (statusFetch poll_errors_unreachable) = Inr \<lparr>ok = True, json = Inr status_new\<rparr>
   \<and> cameras (after_poll poll_errors_unreachable snapshot_old) \<noteq> [camera_new]
   \<and> predictions (after_poll poll_errors_unreachable snapshot_old) \<noteq> [prediction_pA, prediction_pB]
   \<and> status (after_poll poll_errors_unreachable snapshot_old) \<noteq> Some status_new"
  by (simp add: poll_errors_unreachable_def sample_defs after_poll_def fetchData_def
        Promise_all_def rejection_def task_defs snapshot_old_def status_old_def status_new_def)

text \<open>
  C1, amended.  In a poll cycle in which the four fetches fulfil with a response and
  every response with a success status has a JSON body, each entity whose response has a
  success status is set to the fetched value and each entity whose response has a
  non-success status keeps the value it had before the cycle.  So a resource that
  answers with a non-success status while the other three succeed is left unchanged and
  the other three are updated.
\<close>

theorem fetchData_isolates_non_success:
  assumes "settled (camerasFetch net) = Inr camerasRes"
      and "settled (predictionsFetch net) = Inr predictionsRes"
      and "settled (statusFetch net) = Inr statusRes"
      and "settled (errorsFetch net) = Inr errorsRes"
      and "ok camerasRes \<Longrightarrow> json camerasRes = Inr c"
      and "ok predictionsRes \<Longrightarrow> json predictionsRes = Inr p"
      and "ok statusRes \<Longrightarrow> json statusRes = Inr st"
      and "ok errorsRes \<Longrightarrow> json errorsRes = Inr e"
  shows "after_poll net s =
           s\<lparr>cameras := if ok camerasRes then c else cameras s,
             predictions := if ok predictionsRes then p else predictions s,
             status := if ok statusRes then Some st else status s,
             errors := if ok errorsRes then e else errors s\<rparr>"
  using assms(5-8)
  by (simp add: after_poll_def fetchData_def Promise_all_fulfilled [OF assms(1-4)] task_defs)

theorem fetchData_isolates_non_success_witness:
  "after_poll poll_errors_500 snapshot_old =
     snapshot_old\<lparr>cameras := [camera_new], predictions := [prediction_pA, prediction_pB],
                  status := Some status_new\<rparr>"
  using fetchData_isolates_non_success
    [of poll_errors_500 "\<lparr>ok = True, json = Inr [camera_new]\<rparr>"
        "\<lparr>ok = True, json = Inr [prediction_pA, prediction_pB]\<rparr>"
        "\<lparr>ok = True, json = Inr status_new\<rparr>"
        "\<lparr>ok = False, json = Inl (SyntaxError ''Unexpected token'')\<rparr>"
        "[camera_new]" "[prediction_pA, prediction_pB]" status_new "[]" snapshot_old]
  by (simp add: poll_errors_500_def sample_defs snapshot_old_def)

text \<open>
  C3.  When the payload of a push event decodes to \<open>p0\<close>, the prediction sequence after
  the handler is \<open>p0\<close> followed by the sequence before it, in its order.
\<close>

theorem push_prepends:
  assumes "JSON_parse data = Inr p0"
  shows "predictions (after_push JSON_parse data s) = p0 # predictions s"
  using assms by (simp add: after_push_def on_send_sensor_data_Inr)

theorem push_prepends_witness:
  "predictions (after_push sample_parse ''{}''
       (App_initial\<lparr>predictions := [prediction_pA, prediction_pB]\<rparr>))
     = [prediction_p0, prediction_pA, prediction_pB]"
  using push_prepends [of sample_parse "''{}''" prediction_p0
      "App_initial\<lparr>predictions := [prediction_pA, prediction_pB]\<rparr>"]
  by (simp add: sample_parse_def)

text \<open>
  C7.  When the payload of a push event is not JSON, the handler ends with the error
  that \<^verbatim>\<open>JSON.parse\<close> threw (nothing in the handler catches it), it has called no setter,
  and the snapshot, so the prediction sequence, is as it was.
\<close>

theorem push_decode_failure_propagates:
  assumes "JSON_parse data = Inl err"
  shows "on_send_sensor_data JSON_parse data = ([], Inl err)
         \<and> after_push JSON_parse data s = s"
  using assms by (simp add: after_push_def on_send_sensor_data_Inl)

theorem push_decode_failure_propagates_witness:
  "on_send_sensor_data sample_parse ''not json'' = ([], Inl (SyntaxError ''Unexpected token''))
   \<and> after_push sample_parse ''not json'' snapshot_old = snapshot_old"
  using push_decode_failure_propagates
    [of sample_parse "''not json''" "SyntaxError ''Unexpected token''" snapshot_old]
  by (simp add: sample_parse_def)

text \<open>
  C10.  A run of the push handler changes the prediction sequence only: the cameras, the
  status, the errors (and the flag of the log) are as before, whatever the payload.
\<close>

theorem push_changes_predictions_only:
  "cameras (after_push JSON_parse data s) = cameras s
   \<and> status (after_push JSON_parse data s) = status s
   \<and> errors (after_push JSON_parse data s) = errors s
   \<and> isLogExpanded (after_push JSON_parse data s) = isLogExpanded s
   \<and> after_push JSON_parse data s = s\<lparr>predictions := predictions (after_push JSON_parse data s)\<rparr>"
  by (cases "JSON_parse data")
     (simp_all add: after_push_def on_send_sensor_data_Inl on_send_sensor_data_Inr)



text \<open>
  C5, as the claim states it, fails: with a prior status and a successful answer to
  \<^verbatim>\<open>/api/status\<close>, the status after the cycle is still the prior one when the fetch of
  \<^verbatim>\<open>/api/cameras\<close> rejects, and also when \<^verbatim>\<open>/api/cameras\<close> answers 200 with a body that
  is not JSON.
\<close>

theorem status_not_replaced_when_cycle_aborts:
  "settled (statusFetch poll_cameras_unreachable) = Inr \<lparr>ok = True, json = Inr status_new\<rparr>
   \<and> settled (statusFetch poll_cameras_not_json) = Inr \<lparr>ok = True, json = Inr status_new\<rparr>
   \<and> status snapshot_old = Some status_old
   \<and> status (after_poll poll_cameras_unreachable snapshot_old) = Some status_old
   \<and> status (after_poll poll_cameras_unreachable snapshot_old) \<noteq> Some status_new
   \<and> status (after_poll poll_cameras_not_json snapshot_old) = Some status_old
   \<and> status (after_poll poll_cameras_not_json snapshot_old) \<noteq> Some status_new"
proof -
  have response: "settled (statusFetch poll_cameras_unreachable) =
      Inr \<lparr>ok = True, json = Inr status_new\<rparr>"
    by (simp add: poll_cameras_unreachable_def sample_defs)
  have response': "settled (statusFetch poll_cameras_not_json) =
      Inr \<lparr>ok = True, json = Inr status_new\<rparr>"
    by (simp add: poll_cameras_not_json_def sample_defs)
  have before: "status snapshot_old = Some status_old"
    by (simp add: snapshot_old_def)
  have skipped: "after_poll poll_cameras_unreachable snapshot_old = snapshot_old"
    by (simp add: poll_cameras_unreachable_def sample_defs after_poll_def fetchData_def
        Promise_all_def rejection_def task_defs)
  have skipped': "after_poll poll_cameras_not_json snapshot_old = snapshot_old"
    by (simp add: poll_cameras_not_json_def sample_defs after_poll_def fetchData_def
        Promise_all_def rejection_def task_defs)
  have differ: "status_old \<noteq> status_new"
    by (simp add: status_old_def status_new_def)
  from response response' before skipped skipped' differ show ?thesis by simp
qed

text \<open>
  C5, amended.  The status is null at the start and stays null as long as no poll cycle
  had a successful answer to \<^verbatim>\<open>/api/status\<close>.  In a poll cycle in which the four fetches
  fulfil, the bodies of the cameras and predictions responses decode where their status
  is a success, and \<^verbatim>\<open>/api/status\<close> answers with a success status and the body \<open>v\<close>, the
  status after the cycle is exactly \<open>v\<close>, whatever it was before.
\<close>

theorem status_null_then_replaced:
  "status App_initial = None
   \<and> ((\<forall>ev \<in> set evs. \<not> status_success ev) \<longrightarrow>
        status (run_events JSON_parse evs App_initial) = None)
   \<and> (settled (camerasFetch net) = Inr camerasRes
        \<and> settled (predictionsFetch net) = Inr predictionsRes
        \<and> settled (statusFetch net) = Inr statusRes
        \<and> settled (errorsFetch net) = Inr errorsRes
        \<and> (ok camerasRes \<longrightarrow> \<not> isl (json camerasRes))
        \<and> (ok predictionsRes \<longrightarrow> \<not> isl (json predictionsRes))
        \<and> ok statusRes \<and> json statusRes = Inr v
      \<longrightarrow> status (after_poll net s) = Some v)"
proof -
  have a: "status App_initial = None" by (simp add: App_initial_def)
  have b: "(\<forall>ev \<in> set evs. \<not> status_success ev) \<longrightarrow>
        status (run_events JSON_parse evs App_initial) = None"
    using run_events_status_unchanged [of evs JSON_parse App_initial] a by simp
  from a b fetchData_sets_status [of net camerasRes predictionsRes statusRes errorsRes v s]
  show ?thesis by blast
qed

theorem status_null_then_replaced_witness:
  "status (run_events sample_parse
       [PollCycle poll_status_500, PushEvent ''{}'', ToggleLog, PollCycle poll_status_not_json]
       App_initial) = None
   \<and> status (after_poll poll_errors_500 snapshot_old) = Some status_new"
proof -
  have quiet: "\<forall>ev \<in> set [PollCycle poll_status_500, PushEvent ''{}'', ToggleLog,
      PollCycle poll_status_not_json]. \<not> status_success ev"
    by (simp add: poll_status_500_def poll_status_not_json_def sample_defs)
  have poll: "settled (camerasFetch poll_errors_500) = Inr \<lparr>ok = True, json = Inr [camera_new]\<rparr>
      \<and> settled (predictionsFetch poll_errors_500) =
          Inr \<lparr>ok = True, json = Inr [prediction_pA, prediction_pB]\<rparr>
      \<and> settled (statusFetch poll_errors_500) = Inr \<lparr>ok = True, json = Inr status_new\<rparr>
      \<and> settled (errorsFetch poll_errors_500) =
          Inr \<lparr>ok = False, json = Inl (SyntaxError ''Unexpected token'')\<rparr>"
    by (simp add: poll_errors_500_def sample_defs)
  from status_null_then_replaced
    [of "[PollCycle poll_status_500, PushEvent ''{}'', ToggleLog,
          PollCycle poll_status_not_json]" sample_parse
        poll_errors_500 "\<lparr>ok = True, json = Inr [camera_new]\<rparr>"
        "\<lparr>ok = True, json = Inr [prediction_pA, prediction_pB]\<rparr>"
        "\<lparr>ok = True, json = Inr status_new\<rparr>"
        "\<lparr>ok = False, json = Inl (SyntaxError ''Unexpected token'')\<rparr>"
        status_new snapshot_old]
    quiet poll
  show ?thesis by simp
qed




text \<open>
  C8.  The claim asks that unmounting cancels the interval and releases the socket.  The
  cleanup that \<^verbatim>\<open>useEffect\<close> returns cancels the interval only: after mount and unmount
  no interval is set, but the socket is still open with its listener on
  \<^verbatim>\<open>send_sensor_data\<close>, and after a remount two sockets are subscribed.
\<close>

theorem unmount_leaves_socket_open:
  "intervals (mount_unmount Runtime_initial) = []
   \<and> map listeners (sockets (mount_unmount Runtime_initial)) = [[''connect'', ''send_sensor_data'']]
   \<and> intervals (snd (useEffect (mount_unmount Runtime_initial))) = [(2, 1000)]
   \<and> map listeners (sockets (snd (useEffect (mount_unmount Runtime_initial)))) =
       [[''connect'', ''send_sensor_data''], [''connect'', ''send_sensor_data'']]"
  by (simp add: mount_unmount_def useEffect_def Runtime_initial_def io_def socket_on_def
        setInterval_def clearInterval_def)

end
